theory Spec2Isabelle
  imports Main "HOL-Library.Word"
begin

section \<open>The ClamAV grep plugin of w3af (plugins/grep/clamav.py)\<close>

text \<open>
  The plugin is a Python class with three mutable attributes, a handful of methods and
  four collaborators that live outside the file: the clamd daemon behind a Unix socket,
  the bloom filter of analysed URLs, the knowledge base and the output manager.

  The embedding is sequential: one call runs to its end before the next one starts, so
  the re-entrant lock \<open>_config_check_lock\<close> has nothing to guard and is left out.
  Every call to a collaborator is recorded, in order, in a trace; what the daemon
  answers is a parameter, a function of the trace so far, so that it may answer
  differently from one call to the next. A Python exception is a value \<open>Inl e\<close>.
\<close>

subsection \<open>Python values and exceptions\<close>

datatype pykey = KStr string | KInt int

datatype pyval =
    PNone
  | PInt int
  | PStr string
  | PTuple "pyval list"
  | PList "pyval list"
  | PDict "(pykey \<times> pyval) list"

type_synonym pydict = "(pykey \<times> pyval) list"

datatype exn =
    KeyError
  | IndexError
  | TypeError
  | AttributeError
  | ConnectionError
  | ResponseError
  | BufferTooLongError
  | OptionNotFound

type_synonym bytes = "8 word list"

text \<open>\<open>d[k]\<close> on a dict: the value stored under the key, \<open>KeyError\<close> without one.\<close>

definition dict_getitem :: "pydict \<Rightarrow> pykey \<Rightarrow> exn + pyval" where
  "dict_getitem d k = (case map_of d k of None \<Rightarrow> Inl KeyError | Some v \<Rightarrow> Inr v)"

text \<open>
  \<open>v[i]\<close> for the literal indices \<open>0\<close> and \<open>1\<close> the parser uses: an element of a
  tuple or a list, a one-character string of a string, the value under the integer key of
  a dict; \<open>IndexError\<close> out of range, \<open>TypeError\<close> on \<open>None\<close> and on an integer.
\<close>

definition py_getitem :: "pyval \<Rightarrow> nat \<Rightarrow> exn + pyval" where
  "py_getitem v i =
     (case v of
        PTuple xs \<Rightarrow> if i < length xs then Inr (xs ! i) else Inl IndexError
      | PList xs \<Rightarrow> if i < length xs then Inr (xs ! i) else Inl IndexError
      | PStr s \<Rightarrow> if i < length s then Inr (PStr [s ! i]) else Inl IndexError
      | PDict d \<Rightarrow> dict_getitem d (KInt (int i))
      | PNone \<Rightarrow> Inl TypeError
      | PInt n \<Rightarrow> Inl TypeError)"

subsection \<open>Requests, responses, findings and the trace\<close>

record request =
  get_method :: string

record response =
  get_code :: int
  get_url :: string
  get_body :: bytes
  response_id :: int

text \<open>
  Modelled from the spec: the class \<open>Info\<close> (core/data/kb/info) is not among the
  sources. The spec's finding has a title, a description, a resource URL, a source id and
  a reporter name: \<open>Info(name, desc, response_id, plugin_name)\<close> stores its four
  arguments, and the URL is unset until \<open>set_url\<close>.
\<close>

record info =
  info_name :: string
  info_desc :: string
  info_response_id :: int
  info_plugin_name :: string
  info_url :: "string option"

definition Info :: "string \<Rightarrow> string \<Rightarrow> int \<Rightarrow> string \<Rightarrow> info" where
  "Info name desc rid plugin =
     \<lparr>info_name = name, info_desc = desc, info_response_id = rid,
      info_plugin_name = plugin, info_url = None\<rparr>"

definition set_url :: "string \<Rightarrow> info \<Rightarrow> info" where
  "set_url u i = i\<lparr>info_url := Some u\<rparr>"

text \<open>
  One event per call that leaves the plugin: to the daemon (with the socket path of the
  connection), to the bloom filter, to the knowledge base and to the output manager.
\<close>

datatype event =
    Ping string
  | Version string
  | Instream string bytes
  | FilterTest string
  | FilterAdd string
  | KbAppend string info
  | OutInformation string
  | OutError string
  | OutDebug string

fun is_ping :: "event \<Rightarrow> bool" where
  "is_ping (Ping p) = True"
| "is_ping e = False"

fun is_probe :: "event \<Rightarrow> bool" where
  "is_probe (Ping p) = True"
| "is_probe (Version p) = True"
| "is_probe e = False"

fun is_dispatch :: "event \<Rightarrow> bool" where
  "is_dispatch (Instream p b) = True"
| "is_dispatch e = False"

fun is_filter_op :: "event \<Rightarrow> bool" where
  "is_filter_op (FilterTest u) = True"
| "is_filter_op (FilterAdd u) = True"
| "is_filter_op e = False"

fun is_kb_append :: "event \<Rightarrow> bool" where
  "is_kb_append (KbAppend c i) = True"
| "is_kb_append e = False"

definition dispatches :: "event list \<Rightarrow> nat" where
  "dispatches tr = length (filter is_dispatch tr)"

subsection \<open>The collaborators\<close>

text \<open>
  What lies outside the file, as parameters: the three daemon operations of the clamd
  client (each given the trace so far and the socket path, each free to raise), the false
  positives of the bloom filter, Python's own rendering of a value that is not a string,
  and the plugin's name (\<open>get_name\<close> of the base class).
\<close>

record env =
  ping :: "event list \<Rightarrow> string \<Rightarrow> exn + string"
  version :: "event list \<Rightarrow> string \<Rightarrow> exn + string"
  instream :: "event list \<Rightarrow> string \<Rightarrow> bytes \<Rightarrow> exn + pydict"
  false_positive :: "string list \<Rightarrow> string \<Rightarrow> bool"
  py_repr :: "pyval \<Rightarrow> string"
  get_name :: string

text \<open>\<open>'%s' % v\<close>: a string is interpolated as it is, \<open>None\<close> as \<open>None\<close>.\<close>

definition py_str :: "env \<Rightarrow> pyval \<Rightarrow> string" where
  "py_str E v = (case v of PStr s \<Rightarrow> s | PNone \<Rightarrow> ''None'' | _ \<Rightarrow> py_repr E v)"

text \<open>
  Modelled from the spec: \<open>ScalableBloomFilter\<close> (core/data/bloomfilter) is not among
  the sources. The spec gives it two operations, add and test membership, with possible
  false positives and no false negatives: the filter is the list of the identifiers added
  so far, and a test answers true for each of them and wherever the parameter
  \<open>false_positive\<close> says so.
\<close>

definition bloom_contains :: "env \<Rightarrow> string list \<Rightarrow> string \<Rightarrow> bool" where
  "bloom_contains E ms x = (x \<in> set ms \<or> false_positive E ms x)"

definition bloom_add :: "string \<Rightarrow> string list \<Rightarrow> string list" where
  "bloom_add x ms = x # ms"

subsection \<open>The plugin\<close>

record clamav =
  already_analyzed :: "string list"
  properly_configured :: "bool option"
  clamd_socket :: string
  trace :: "event list"

definition METHODS :: "string list" where
  "METHODS = [''GET'']"

definition HTTP_CODES :: "int list" where
  "HTTP_CODES = [200]"

text \<open>\<open>__init__\<close>, with nothing done yet.\<close>

definition clamav_init :: clamav where
  "clamav_init =
     \<lparr>already_analyzed = [], properly_configured = None,
      clamd_socket = ''/var/run/clamav/clamd.ctl'', trace = []\<rparr>"

definition emit :: "event \<Rightarrow> clamav \<Rightarrow> clamav" where
  "emit e self = self\<lparr>trace := trace self @ [e]\<rparr>"

text \<open>
  \<open>_get_connection\<close>: \<open>clamd.ClamdUnixSocket(path=...)\<close> only stores the path; the socket
  is opened by each operation.
\<close>

definition get_connection :: "clamav \<Rightarrow> string" where
  "get_connection self = clamd_socket self"

text \<open>\<open>_connection_test\<close>: any exception of the ping is swallowed and answers False.\<close>

definition connection_test :: "env \<Rightarrow> clamav \<Rightarrow> bool \<times> clamav" where
  "connection_test E self =
     (let cd = get_connection self in
      case ping E (trace self) cd of
        Inl e \<Rightarrow> (False, emit (Ping cd) self)
      | Inr r \<Rightarrow> (r = ''PONG'', emit (Ping cd) self))"

text \<open>\<open>_get_clamd_version\<close>: no handler, an exception of the daemon leaves the method.\<close>

definition get_clamd_version :: "env \<Rightarrow> clamav \<Rightarrow> (exn + string) \<times> clamav" where
  "get_clamd_version E self =
     (let cd = get_connection self in (version E (trace self) cd, emit (Version cd) self))"

text \<open>
  \<open>_is_properly_configured\<close>: the cached answer when there is one; otherwise the
  connection test, then either the version query, the information line and the cache set
  to True, or the error line and the cache set to False. The version query runs before
  the assignment, so when it raises the cache is still unset.
\<close>

definition is_properly_configured :: "env \<Rightarrow> clamav \<Rightarrow> (exn + bool) \<times> clamav" where
  "is_properly_configured E self =
     (case properly_configured self of
        Some b \<Rightarrow> (Inr b, self)
      | None \<Rightarrow>
          (case connection_test E self of
             (True, s1) \<Rightarrow>
               (case get_clamd_version E s1 of
                  (Inl e, s2) \<Rightarrow> (Inl e, s2)
                | (Inr v, s2) \<Rightarrow>
                    (Inr True,
                     (emit (OutInformation (''Using '' @ v @ '' for scanning HTTP response bodies.'')) s2)
                       \<lparr>properly_configured := Some True\<rparr>))
           | (False, s1) \<Rightarrow>
               (Inr False,
                (emit (OutError
                   (''The ClamAV plugin failed to connect to clamd using the provided unix socket: ''
                    @ [CHR 0x22] @ clamd_socket s1 @ [CHR 0x22]
                    @ ''. Please verify your configuration and try again.'')) s1)
                  \<lparr>properly_configured := Some False\<rparr>)))"

record ScanResult =
  found :: bool
  signature :: pyval

text \<open>
  The body of the \<open>try\<close> of \<open>_parse_scan_result\<close>: \<open>result['stream'][1]\<close>, then
  \<open>result['stream'][0] == 'FOUND'\<close>, each lookup free to raise.
\<close>

definition parse_try :: "pydict \<Rightarrow> exn + ScanResult" where
  "parse_try result =
     (case dict_getitem result (KStr ''stream'') of
        Inl e \<Rightarrow> Inl e
      | Inr v1 \<Rightarrow>
          (case py_getitem v1 1 of
             Inl e \<Rightarrow> Inl e
           | Inr sig \<Rightarrow>
               (case dict_getitem result (KStr ''stream'') of
                  Inl e \<Rightarrow> Inl e
                | Inr v0 \<Rightarrow>
                    (case py_getitem v0 0 of
                       Inl e \<Rightarrow> Inl e
                     | Inr status \<Rightarrow>
                         Inr \<lparr>found = (status = PStr ''FOUND''), signature = sig\<rparr>))))"

text \<open>
  \<open>_parse_scan_result\<close>: the bare \<open>except\<close> writes a debug line and falls off the end of
  the method, which therefore returns \<open>None\<close>.
\<close>

definition parse_scan_result :: "env \<Rightarrow> pydict \<Rightarrow> clamav \<Rightarrow> ScanResult option \<times> clamav" where
  "parse_scan_result E result self =
     (case parse_try result of
        Inr r \<Rightarrow> (Some r, self)
      | Inl e \<Rightarrow>
          (None, emit (OutDebug (''Invalid response from clamd: '' @ py_str E (PDict result))) self))"

text \<open>
  \<open>_scan_http_response\<close>: no handler around \<open>instream\<close>, and \<open>result.found\<close> is read
  without a test for \<open>None\<close>, which raises \<open>AttributeError\<close>.
\<close>

definition scan_http_response :: "env \<Rightarrow> request \<Rightarrow> response \<Rightarrow> clamav \<Rightarrow> (exn + unit) \<times> clamav" where
  "scan_http_response E req resp self =
     (let cd = get_connection self;
          s1 = emit (Instream cd (get_body resp)) self in
      case instream E (trace self) cd (get_body resp) of
        Inl e \<Rightarrow> (Inl e, s1)
      | Inr result_dict \<Rightarrow>
          (case parse_scan_result E result_dict s1 of
             (None, s2) \<Rightarrow> (Inl AttributeError, s2)
           | (Some result, s2) \<Rightarrow>
               if found result then
                 (let desc = ''ClamAV identified malware at URL: '' @ [CHR 0x22] @ get_url resp
                        @ [CHR 0x22] @ '', the matched signature name is '' @ [CHR 0x22]
                        @ py_str E (signature result) @ [CHR 0x22] @ ''.'';
                      i = Info ''Malware identified'' desc (response_id resp) (get_name E);
                      i' = set_url (get_url resp) i
                  in (Inr (), emit (KbAppend ''malware'' i') s2))
               else (Inr (), s2)))"

text \<open>
  \<open>grep\<close>, the entry point: the probe, the method and status gate (Python's \<open>or\<close>, left
  to right), the membership test, the add, then the scan.
\<close>

definition grep :: "env \<Rightarrow> request \<Rightarrow> response \<Rightarrow> clamav \<Rightarrow> (exn + unit) \<times> clamav" where
  "grep E req resp self =
     (case is_properly_configured E self of
        (Inl e, s1) \<Rightarrow> (Inl e, s1)
      | (Inr ok, s1) \<Rightarrow>
          if \<not> ok then (Inr (), s1)
          else if get_method req \<notin> set METHODS then (Inr (), s1)
          else if get_code resp \<notin> set HTTP_CODES then (Inr (), s1)
          else
            (let s2 = emit (FilterTest (get_url resp)) s1 in
             if bloom_contains E (already_analyzed s2) (get_url resp) then (Inr (), s2)
             else
               scan_http_response E req resp
                 ((emit (FilterAdd (get_url resp)) s2)
                    \<lparr>already_analyzed := bloom_add (get_url resp) (already_analyzed s2)\<rparr>)))"

text \<open>
  \<open>set_options\<close>: \<open>options_list['clamd_socket'].get_value()\<close>. The class \<open>OptionList\<close>
  is not among the sources: here it is a list of names and values, and a name it does not
  hold raises in the lookup, before the assignment.
\<close>

definition set_options :: "(string \<times> string) list \<Rightarrow> clamav \<Rightarrow> (exn + unit) \<times> clamav" where
  "set_options options_list self =
     (case map_of options_list ''clamd_socket'' of
        None \<Rightarrow> (Inl OptionNotFound, self)
      | Some v \<Rightarrow> (Inr (), self\<lparr>clamd_socket := v\<rparr>))"

text \<open>
  The life of the plugin in one process: a sequence of calls by the framework, each on
  the state the one before left, whether it returned or raised.
\<close>

datatype call = Grep request response | SetOptions "(string \<times> string) list"

fun step :: "env \<Rightarrow> call \<Rightarrow> clamav \<Rightarrow> clamav" where
  "step E (Grep req resp) self = snd (grep E req resp self)"
| "step E (SetOptions ol) self = snd (set_options ol self)"

fun run :: "env \<Rightarrow> call list \<Rightarrow> clamav \<Rightarrow> clamav" where
  "run E [] self = self"
| "run E (c # cs) self = run E cs (step E c self)"

text \<open>
  The state in which \<open>grep\<close> calls \<open>_scan_http_response\<close>: the filter tested, the URL
  added to it.
\<close>

definition marked :: "string \<Rightarrow> clamav \<Rightarrow> clamav" where
  "marked u s1 =
     (emit (FilterAdd u) (emit (FilterTest u) s1))
       \<lparr>already_analyzed := bloom_add u (already_analyzed s1)\<rparr>"

text \<open>The description of a finding, as \<open>_scan_http_response\<close> formats it.\<close>

definition malware_desc :: "env \<Rightarrow> string \<Rightarrow> pyval \<Rightarrow> string" where
  "malware_desc E u sg =
     ''ClamAV identified malware at URL: '' @ [CHR 0x22] @ u @ [CHR 0x22]
     @ '', the matched signature name is '' @ [CHR 0x22] @ py_str E sg @ [CHR 0x22] @ ''.''"

subsection \<open>Substrings\<close>

fun starts_with :: "string \<Rightarrow> string \<Rightarrow> bool" where
  "starts_with [] ys = True"
| "starts_with (x # xs) [] = False"
| "starts_with (x # xs) (y # ys) = (x = y \<and> starts_with xs ys)"

text \<open>\<open>contains_str x d\<close>: the string \<open>x\<close> occurs in \<open>d\<close>.\<close>

fun contains_str :: "string \<Rightarrow> string \<Rightarrow> bool" where
  "contains_str xs [] = (xs = [])"
| "contains_str xs (y # ys) = (starts_with xs (y # ys) \<or> contains_str xs ys)"

subsection \<open>Daemons and exchanges to run the plugin on\<close>

text \<open>
  A daemon that gives the same answer to every ping, every version query and every scan,
  beside a filter without false positives.
\<close>

definition stub_daemon :: "(exn + string) \<Rightarrow> (exn + string) \<Rightarrow> (exn + pydict) \<Rightarrow> env" where
  "stub_daemon p v r =
     \<lparr>ping = (\<lambda>tr path. p), version = (\<lambda>tr path. v), instream = (\<lambda>tr path b. r),
      false_positive = (\<lambda>ms x. False), py_repr = (\<lambda>v. ''{}''), get_name = ''clamav''\<rparr>"

definition eicar_found :: pydict where
  "eicar_found = [(KStr ''stream'', PTuple [PStr ''FOUND'', PStr ''Eicar-Test-Signature''])]"

definition stream_ok :: pydict where
  "stream_ok = [(KStr ''stream'', PTuple [PStr ''OK'', PNone])]"

definition stream_error :: pydict where
  "stream_error = [(KStr ''stream'', PTuple [PStr ''ERROR'', PStr ''Error processing command.''])]"

definition get_request :: request where
  "get_request = \<lparr>get_method = ''GET''\<rparr>"

definition post_request :: request where
  "post_request = \<lparr>get_method = ''POST''\<rparr>"

definition test_response :: response where
  "test_response =
     \<lparr>get_code = 200, get_url = ''http://x/test'', get_body = [0x58, 0x35, 0x4F],
      response_id = 1\<rparr>"

definition missing_response :: response where
  "missing_response =
     \<lparr>get_code = 404, get_url = ''http://x/test'', get_body = [], response_id = 2\<rparr>"

section \<open>Properties\<close>

subsection \<open>What each method touches\<close>

lemmas probe_defs = is_properly_configured_def connection_test_def get_clamd_version_def
  get_connection_def emit_def

lemmas scan_defs = scan_http_response_def parse_scan_result_def get_connection_def emit_def
  Info_def set_url_def

lemmas fixture_defs = stub_daemon_def eicar_found_def stream_ok_def stream_error_def
  get_request_def post_request_def test_response_def missing_response_def clamav_init_def

lemma ipc_cached:
  "properly_configured s = Some b \<Longrightarrow> is_properly_configured E s = (Inr b, s)"
  by (simp add: is_properly_configured_def)

lemma ipc_resolved:
  "is_properly_configured E s = (Inr b, s') \<Longrightarrow> properly_configured s' = Some b"
  by (auto simp: probe_defs Let_def split: option.splits sum.splits prod.splits bool.splits if_splits)

lemma ipc_frame:
  "already_analyzed (snd (is_properly_configured E s)) = already_analyzed s"
  "clamd_socket (snd (is_properly_configured E s)) = clamd_socket s"
  by (auto simp: probe_defs Let_def split: option.splits sum.splits prod.splits bool.splits)

lemma ipc_trace:
  assumes "\<And>p. \<not> P (Ping p)" "\<And>p. \<not> P (Version p)"
    and "\<And>m. \<not> P (OutInformation m)" "\<And>m. \<not> P (OutError m)"
  shows "filter P (trace (snd (is_properly_configured E s))) = filter P (trace s)"
  using assms
  by (auto simp: probe_defs Let_def split: option.splits sum.splits prod.splits bool.splits)

lemma scan_frame:
  "already_analyzed (snd (scan_http_response E req resp s)) = already_analyzed s"
  "clamd_socket (snd (scan_http_response E req resp s)) = clamd_socket s"
  "properly_configured (snd (scan_http_response E req resp s)) = properly_configured s"
  by (auto simp: scan_defs Let_def split: option.splits sum.splits prod.splits)

lemma scan_dispatches:
  "dispatches (trace (snd (scan_http_response E req resp s))) = Suc (dispatches (trace s))"
  by (auto simp: scan_defs dispatches_def Let_def split: option.splits sum.splits prod.splits)

lemma scan_trace:
  assumes "\<And>p b. \<not> P (Instream p b)" "\<And>c i. \<not> P (KbAppend c i)" "\<And>m. \<not> P (OutDebug m)"
  shows "filter P (trace (snd (scan_http_response E req resp s))) = filter P (trace s)"
  using assms
  by (auto simp: scan_defs Let_def split: option.splits sum.splits prod.splits)

lemma starts_with_append: "starts_with xs (xs @ b)"
  by (induction xs) auto

lemma contains_str_here: "contains_str xs (xs @ b)"
  by (cases "xs @ b") (use starts_with_append [of xs b] in auto)

lemma contains_str_append: "contains_str xs (a @ xs @ b)"
  by (induction a) (auto simp: contains_str_here)

lemma grep_cases [case_names raised skipped seen scanned]:
  obtains e s1 where "is_properly_configured E s = (Inl e, s1)" "grep E req resp s = (Inl e, s1)"
  | b s1 where "is_properly_configured E s = (Inr b, s1)"
      "\<not> b \<or> get_method req \<notin> set METHODS \<or> get_code resp \<notin> set HTTP_CODES"
      "grep E req resp s = (Inr (), s1)"
  | s1 where "is_properly_configured E s = (Inr True, s1)"
      "get_method req \<in> set METHODS" "get_code resp \<in> set HTTP_CODES"
      "bloom_contains E (already_analyzed s1) (get_url resp)"
      "grep E req resp s = (Inr (), emit (FilterTest (get_url resp)) s1)"
  | s1 where "is_properly_configured E s = (Inr True, s1)"
      "get_method req \<in> set METHODS" "get_code resp \<in> set HTTP_CODES"
      "\<not> bloom_contains E (already_analyzed s1) (get_url resp)"
      "grep E req resp s = scan_http_response E req resp (marked (get_url resp) s1)"
proof (cases "is_properly_configured E s")
  case (Pair r s1)
  show thesis
  proof (cases r)
    case (Inl e)
    with Pair show thesis by (intro that(1) [of e s1]) (simp_all add: grep_def)
  next
    case (Inr b)
    show thesis
    proof (cases "\<not> b \<or> get_method req \<notin> set METHODS \<or> get_code resp \<notin> set HTTP_CODES")
      case True
      with Pair Inr show thesis by (intro that(2) [of b s1]) (auto simp: grep_def)
    next
      case False
      show thesis
      proof (cases "bloom_contains E (already_analyzed s1) (get_url resp)")
        case True
        with Pair Inr False show thesis
          by (intro that(3) [of s1]) (auto simp: grep_def emit_def Let_def)
      next
        case nc: False
        with Pair Inr False show thesis
          by (intro that(4) [of s1]) (auto simp: grep_def emit_def Let_def marked_def)
      qed
    qed
  qed
qed

lemma ipc_frameD:
  assumes "is_properly_configured E s = (r, s1)"
  shows "already_analyzed s1 = already_analyzed s" "clamd_socket s1 = clamd_socket s"
  using ipc_frame [of E s] assms by simp_all

lemma ipc_traceD:
  assumes "is_properly_configured E s = (r, s1)"
    and "\<And>p. \<not> P (Ping p)" "\<And>p. \<not> P (Version p)"
    and "\<And>m. \<not> P (OutInformation m)" "\<And>m. \<not> P (OutError m)"
  shows "filter P (trace s1) = filter P (trace s)"
  using ipc_trace [of P E s] assms by simp

lemma ipc_dispatches:
  assumes "is_properly_configured E s = (r, s1)"
  shows "dispatches (trace s1) = dispatches (trace s)"
  unfolding dispatches_def using ipc_traceD [OF assms, of is_dispatch] by simp

lemma marked_simps:
  "already_analyzed (marked u s) = u # already_analyzed s"
  "clamd_socket (marked u s) = clamd_socket s"
  "properly_configured (marked u s) = properly_configured s"
  "trace (marked u s) = trace s @ [FilterTest u, FilterAdd u]"
  by (simp_all add: marked_def emit_def bloom_add_def)

lemma grep_dispatches_le:
  "dispatches (trace (snd (grep E req resp s))) \<le> Suc (dispatches (trace s))"
proof (cases rule: grep_cases [of E s req resp])
  case (scanned s1)
  then show ?thesis
    using ipc_dispatches [of E s "Inr True" s1]
    by (simp add: scan_dispatches marked_simps) (simp add: dispatches_def)
qed (auto simp: emit_def dispatches_def dest: ipc_dispatches)

lemma grep_seen_no_dispatch:
  assumes "get_url resp \<in> set (already_analyzed s)"
  shows "dispatches (trace (snd (grep E req resp s))) = dispatches (trace s)"
proof (cases rule: grep_cases [of E s req resp])
  case (scanned s1)
  with assms ipc_frameD(1) [of E s "Inr True" s1] show ?thesis
    by (simp add: bloom_contains_def)
qed (auto simp: emit_def dispatches_def dest: ipc_dispatches)

lemma grep_dispatch_marks:
  assumes "dispatches (trace (snd (grep E req resp s))) \<noteq> dispatches (trace s)"
  shows "get_url resp \<in> set (already_analyzed (snd (grep E req resp s)))"
proof (cases rule: grep_cases [of E s req resp])
  case (scanned s1)
  then show ?thesis by (simp add: scan_frame marked_simps)
qed (use assms in \<open>auto simp: emit_def dispatches_def dest: ipc_dispatches\<close>)

lemma grep_analyzed_mono:
  "set (already_analyzed s) \<subseteq> set (already_analyzed (snd (grep E req resp s)))"
proof (cases rule: grep_cases [of E s req resp])
  case (scanned s1)
  then show ?thesis using ipc_frameD(1) [of E s "Inr True" s1]
    by (auto simp add: scan_frame marked_simps)
qed (auto simp: emit_def dest: ipc_frameD(1))

lemma grep_cached:
  assumes "properly_configured s = Some b"
  shows "properly_configured (snd (grep E req resp s)) = Some b"
    and "filter is_probe (trace (snd (grep E req resp s))) = filter is_probe (trace s)"
proof -
  have c: "is_properly_configured E s = (Inr b, s)" using assms by (rule ipc_cached)
  show "properly_configured (snd (grep E req resp s)) = Some b"
    by (cases rule: grep_cases [of E s req resp])
      (use c assms in \<open>auto simp: emit_def scan_frame marked_simps\<close>)
  show "filter is_probe (trace (snd (grep E req resp s))) = filter is_probe (trace s)"
    by (cases rule: grep_cases [of E s req resp])
      (use c assms in \<open>auto simp: emit_def scan_trace marked_simps\<close>)
qed

lemmas plugin_defs = grep_def is_properly_configured_def connection_test_def
  get_clamd_version_def scan_http_response_def parse_scan_result_def get_connection_def
  emit_def Info_def set_url_def parse_try_def dict_getitem_def
  py_getitem_def py_str_def bloom_contains_def bloom_add_def METHODS_def HTTP_CODES_def

lemma set_options_frame:
  "already_analyzed (snd (set_options ol s)) = already_analyzed s"
  "properly_configured (snd (set_options ol s)) = properly_configured s"
  "trace (snd (set_options ol s)) = trace s"
  by (auto simp: set_options_def split: option.splits)

lemma step_analyzed_mono: "set (already_analyzed s) \<subseteq> set (already_analyzed (step E c s))"
  by (cases c) (use grep_analyzed_mono in \<open>auto simp: set_options_frame\<close>)

lemma run_analyzed_mono: "set (already_analyzed s) \<subseteq> set (already_analyzed (run E cs s))"
proof (induction cs arbitrary: s)
  case Nil
  show ?case by simp
next
  case (Cons c cs)
  from step_analyzed_mono [of s E c] Cons [of "step E c s"] show ?case by auto
qed

lemma step_cached:
  assumes "properly_configured s = Some b"
  shows "properly_configured (step E c s) = Some b"
    and "filter is_probe (trace (step E c s)) = filter is_probe (trace s)"
  using assms by (cases c; simp add: grep_cached set_options_frame)+

lemma run_cached:
  assumes "properly_configured s = Some b"
  shows "properly_configured (run E cs s) = Some b
       \<and> filter is_probe (trace (run E cs s)) = filter is_probe (trace s)"
  using assms
proof (induction cs arbitrary: s)
  case Nil
  then show ?case by simp
next
  case (Cons c cs)
  from Cons.prems have "properly_configured (step E c s) = Some b"
    and t: "filter is_probe (trace (step E c s)) = filter is_probe (trace s)"
    by (rule step_cached)+
  with Cons.IH [of "step E c s"] show ?case by simp
qed

lemma parse_scan_result_fst:
  "fst (parse_scan_result E d s) = Some r \<longleftrightarrow> parse_try d = Inr r"
  by (auto simp: parse_scan_result_def split: sum.splits)

lemma malware_desc_mentions:
  "contains_str u (malware_desc E u sg)" "contains_str (py_str E sg) (malware_desc E u sg)"
proof -
  show "contains_str u (malware_desc E u sg)"
    unfolding malware_desc_def
    using contains_str_append [of u "''ClamAV identified malware at URL: '' @ [CHR 0x22]"]
    by simp
  show "contains_str (py_str E sg) (malware_desc E u sg)"
    unfolding malware_desc_def
    using contains_str_append [of "py_str E sg"
      "''ClamAV identified malware at URL: '' @ [CHR 0x22] @ u @ [CHR 0x22]
       @ '', the matched signature name is '' @ [CHR 0x22]" "[CHR 0x22] @ ''.''"]
    by simp
qed

subsection \<open>The parser\<close>

text \<open>
  Claim C4: the parser's three round-trip cases. \<open>{'stream': ('FOUND',
  'Eicar-Test-Signature')}\<close> gives found true with that signature; \<open>{'stream': ('OK',
  None)}\<close> gives found false with signature \<open>None\<close>; \<open>{}\<close> fails as a malformed response:
  the lookup of \<open>stream\<close> raises \<open>KeyError\<close>, and the parser gives no verdict and writes
  the line \<open>Invalid response from clamd\<close> with the payload.
\<close>

theorem parse_scan_result_round_trip:
  "parse_scan_result E [(KStr ''stream'', PTuple [PStr ''FOUND'', PStr ''Eicar-Test-Signature''])] self
     = (Some \<lparr>found = True, signature = PStr ''Eicar-Test-Signature''\<rparr>, self)
   \<and> parse_scan_result E [(KStr ''stream'', PTuple [PStr ''OK'', PNone])] self
     = (Some \<lparr>found = False, signature = PNone\<rparr>, self)
   \<and> parse_try [] = Inl KeyError
   \<and> parse_scan_result E [] self
     = (None, emit (OutDebug (''Invalid response from clamd: '' @ py_repr E (PDict []))) self)"
  by (simp add: parse_scan_result_def parse_try_def dict_getitem_def py_getitem_def py_str_def)

text \<open>
  Claim C3: every verdict of the parser with found false has signature \<open>None\<close>.

  The parser copies the second element of the stream value whatever the first one is.
  On \<open>{'stream': ('ERROR', 'Error processing command.')}\<close> it succeeds with found false
  and that message as signature.
\<close>

theorem parse_scan_result_signature_counterexample:
  "fst (parse_scan_result (stub_daemon (Inr ''PONG'') (Inr ''ClamAV 0.97.8'') (Inr stream_error))
          stream_error clamav_init)
     = Some \<lparr>found = False, signature = PStr ''Error processing command.''\<rparr>"
  by (simp add: parse_scan_result_def parse_try_def dict_getitem_def py_getitem_def fixture_defs)

text \<open>
  Claim C3, amended: for every input on which the parser succeeds with found false, the
  returned signature is the second element of the stream value; it is \<open>None\<close> exactly
  when that element is \<open>None\<close>.
\<close>

theorem parse_scan_result_signature:
  assumes "fst (parse_scan_result E result self) = Some r" and "\<not> found r"
  shows "\<exists>v. dict_getitem result (KStr ''stream'') = Inr v
           \<and> py_getitem v 1 = Inr (signature r)
           \<and> (signature r = PNone) = (py_getitem v 1 = Inr PNone)"
  using assms
  by (auto simp: parse_scan_result_def parse_try_def split: sum.splits)

theorem parse_scan_result_signature_witness:
  "fst (parse_scan_result (stub_daemon (Inr ''PONG'') (Inr ''ClamAV 0.97.8'') (Inr stream_ok))
          stream_ok clamav_init) = Some \<lparr>found = False, signature = PNone\<rparr>
   \<and> \<not> found \<lparr>found = False, signature = PNone\<rparr>
   \<and> (\<exists>v. dict_getitem stream_ok (KStr ''stream'') = Inr v
           \<and> py_getitem v 1 = Inr (signature \<lparr>found = False, signature = PNone\<rparr>)
           \<and> (signature \<lparr>found = False, signature = PNone\<rparr> = PNone) = (py_getitem v 1 = Inr PNone))"
proof -
  let ?E = "stub_daemon (Inr ''PONG'') (Inr ''ClamAV 0.97.8'') (Inr stream_ok)"
  let ?r = "\<lparr>found = False, signature = PNone\<rparr>"
  have h1: "fst (parse_scan_result ?E stream_ok clamav_init) = Some ?r"
    by (simp add: parse_scan_result_def parse_try_def dict_getitem_def py_getitem_def fixture_defs)
  have h2: "\<not> found ?r" by simp
  from parse_scan_result_signature [OF h1 h2] h1 h2 show ?thesis by blast
qed

subsection \<open>The probe\<close>

text \<open>
  Claim C6: the first call of the enablement check performs exactly one ping and caches
  the resulting boolean; every later call returns the cached value without probing
  again.

  The code queries the daemon's version between the successful ping and the assignment
  to the cache, outside any handler. With a daemon that answers the ping with \<open>PONG\<close> and
  whose version query raises, the first call raises with the cache still unset, and the
  second call pings again.
\<close>

theorem is_properly_configured_version_raises:
  "is_properly_configured (stub_daemon (Inr ''PONG'') (Inl ConnectionError) (Inr stream_ok))
     clamav_init =
   (Inl ConnectionError,
    clamav_init\<lparr>trace := [Ping ''/var/run/clamav/clamd.ctl'', Version ''/var/run/clamav/clamd.ctl'']\<rparr>)
   \<and> is_properly_configured (stub_daemon (Inr ''PONG'') (Inl ConnectionError) (Inr stream_ok))
     (clamav_init\<lparr>trace := [Ping ''/var/run/clamav/clamd.ctl'', Version ''/var/run/clamav/clamd.ctl'']\<rparr>) =
   (Inl ConnectionError,
    clamav_init\<lparr>trace := [Ping ''/var/run/clamav/clamd.ctl'', Version ''/var/run/clamav/clamd.ctl'',
       Ping ''/var/run/clamav/clamd.ctl'', Version ''/var/run/clamav/clamd.ctl'']\<rparr>)
   \<and> properly_configured clamav_init = None"
  by (simp add: plugin_defs fixture_defs)

text \<open>
  When the call returns, that is when the ping failed or the version query answered, the
  cache works: a call on an unset cache pings once and stores its answer, and the next
  call returns that answer and leaves the state alone.
\<close>

lemma is_properly_configured_resolves_once:
  assumes "properly_configured self = None"
    and "is_properly_configured E self = (Inr b, s1)"
  shows "length (filter is_ping (trace s1)) = Suc (length (filter is_ping (trace self)))"
    and "properly_configured s1 = Some b"
    and "is_properly_configured E s1 = (Inr b, s1)"
proof -
  show "length (filter is_ping (trace s1)) = Suc (length (filter is_ping (trace self)))"
    using assms
    by (auto simp: probe_defs Let_def split: sum.splits prod.splits bool.splits if_splits)
  show c: "properly_configured s1 = Some b"
    using assms(2) by (rule ipc_resolved)
  show "is_properly_configured E s1 = (Inr b, s1)"
    using c by (rule ipc_cached)
qed

text \<open>
  Claim C10: setting options changes only the socket path; the cached configuration
  state and the filter are as before. After the probe has resolved to \<open>b\<close>, a change of
  the socket path does not trigger the health check again: the enablement check answers
  \<open>b\<close> at once, and after any sequence \<open>cs\<close> of later calls the cache still holds \<open>b\<close> and
  no ping or version query has been added to the trace.
\<close>

theorem set_options_only_socket:
  "snd (set_options ol self) = self\<lparr>clamd_socket := clamd_socket (snd (set_options ol self))\<rparr>
   \<and> already_analyzed (snd (set_options ol self)) = already_analyzed self
   \<and> properly_configured (snd (set_options ol self)) = properly_configured self
   \<and> trace (snd (set_options ol self)) = trace self
   \<and> (properly_configured self = Some b \<longrightarrow>
        is_properly_configured E (snd (set_options ol self)) = (Inr b, snd (set_options ol self))
        \<and> properly_configured (run E cs (snd (set_options ol self))) = Some b
        \<and> filter is_probe (trace (run E cs (snd (set_options ol self))))
            = filter is_probe (trace self))"
proof -
  have only: "snd (set_options ol self) = self\<lparr>clamd_socket := clamd_socket (snd (set_options ol self))\<rparr>"
    by (auto simp: set_options_def split: option.splits)
  have later: "is_properly_configured E (snd (set_options ol self)) = (Inr b, snd (set_options ol self))
        \<and> properly_configured (run E cs (snd (set_options ol self))) = Some b
        \<and> filter is_probe (trace (run E cs (snd (set_options ol self))))
            = filter is_probe (trace self)"
    if "properly_configured self = Some b"
  proof -
    from that have c: "properly_configured (snd (set_options ol self)) = Some b"
      by (simp add: set_options_frame)
    from ipc_cached [OF c] run_cached [OF c] show ?thesis by (simp add: set_options_frame)
  qed
  from only later show ?thesis by (simp add: set_options_frame)
qed

theorem set_options_only_socket_witness:
  "properly_configured (clamav_init\<lparr>properly_configured := Some True\<rparr>) = Some True
   \<and> snd (set_options [(''clamd_socket'', ''/tmp/clamd.sock'')]
        (clamav_init\<lparr>properly_configured := Some True\<rparr>))
      = clamav_init\<lparr>properly_configured := Some True, clamd_socket := ''/tmp/clamd.sock''\<rparr>
   \<and> is_properly_configured (stub_daemon (Inl ConnectionError) (Inl ConnectionError) (Inr stream_ok))
        (snd (set_options [(''clamd_socket'', ''/tmp/clamd.sock'')]
           (clamav_init\<lparr>properly_configured := Some True\<rparr>)))
      = (Inr True, clamav_init\<lparr>properly_configured := Some True, clamd_socket := ''/tmp/clamd.sock''\<rparr>)
   \<and> properly_configured
        (run (stub_daemon (Inl ConnectionError) (Inl ConnectionError) (Inr stream_ok))
           [Grep get_request test_response]
           (snd (set_options [(''clamd_socket'', ''/tmp/clamd.sock'')]
              (clamav_init\<lparr>properly_configured := Some True\<rparr>)))) = Some True
   \<and> filter is_probe (trace
        (run (stub_daemon (Inl ConnectionError) (Inl ConnectionError) (Inr stream_ok))
           [Grep get_request test_response]
           (snd (set_options [(''clamd_socket'', ''/tmp/clamd.sock'')]
              (clamav_init\<lparr>properly_configured := Some True\<rparr>))))) = []"
proof -
  let ?E = "stub_daemon (Inl ConnectionError) (Inl ConnectionError) (Inr stream_ok)"
  let ?ol = "[(''clamd_socket'', ''/tmp/clamd.sock'')]"
  let ?s = "clamav_init\<lparr>properly_configured := Some True\<rparr>"
  have h: "properly_configured ?s = Some True" by simp
  have so: "snd (set_options ?ol ?s) = ?s\<lparr>clamd_socket := ''/tmp/clamd.sock''\<rparr>"
    by (simp add: set_options_def)
  have t: "trace ?s = []" by (simp add: clamav_init_def)
  from set_options_only_socket [of ?ol ?s True ?E "[Grep get_request test_response]"] h
  have "is_properly_configured ?E (snd (set_options ?ol ?s)) = (Inr True, snd (set_options ?ol ?s))
      \<and> properly_configured (run ?E [Grep get_request test_response] (snd (set_options ?ol ?s))) = Some True
      \<and> filter is_probe (trace (run ?E [Grep get_request test_response] (snd (set_options ?ol ?s))))
          = filter is_probe (trace ?s)"
    by blast
  with h so t show ?thesis by simp
qed

subsection \<open>The coordinator\<close>

text \<open>
  Claim C7: when the request method is not an allowed method or the response status is
  not an allowed code, the coordinator returns without consulting the dedup filter,
  without marking the URL as seen and without dispatching a scan.

  The gate comes after the probe, and the probe can raise: on the initial plugin, with a
  daemon that answers the ping with \<open>PONG\<close> and whose version query raises, a POST
  request with a 404 response does not return, it ends in \<open>ConnectionError\<close>. The filter
  is not consulted and nothing is dispatched, as the claim says.
\<close>

theorem grep_gated_call_raises:
  "grep (stub_daemon (Inr ''PONG'') (Inl ConnectionError) (Inr stream_ok)) post_request
     missing_response clamav_init =
   (Inl ConnectionError,
    \<lparr>already_analyzed = [], properly_configured = None,
     clamd_socket = ''/var/run/clamav/clamd.ctl'',
     trace = [Ping ''/var/run/clamav/clamd.ctl'', Version ''/var/run/clamav/clamd.ctl'']\<rparr>)
   \<and> get_method post_request = ''POST'' \<and> get_code missing_response = 404"
  by (simp add: plugin_defs fixture_defs)

text \<open>
  What the gate does on every exchange it refuses: the call is the probe and nothing
  more. It returns whenever the probe returns, no filter operation and no scan is added
  to the trace, and the filter is as it was.
\<close>

lemma grep_method_status_gate:
  assumes "get_method req \<notin> set METHODS \<or> get_code resp \<notin> set HTTP_CODES"
  shows "grep E req resp self =
           (case is_properly_configured E self of
              (Inl e, s1) \<Rightarrow> (Inl e, s1)
            | (Inr ok, s1) \<Rightarrow> (Inr (), s1))
       \<and> filter is_filter_op (trace (snd (grep E req resp self))) = filter is_filter_op (trace self)
       \<and> already_analyzed (snd (grep E req resp self)) = already_analyzed self
       \<and> filter is_dispatch (trace (snd (grep E req resp self))) = filter is_dispatch (trace self)"
proof -
  have g: "grep E req resp self =
           (case is_properly_configured E self of
              (Inl e, s1) \<Rightarrow> (Inl e, s1)
            | (Inr ok, s1) \<Rightarrow> (Inr (), s1))"
    using assms by (auto simp: grep_def split: prod.splits sum.splits)
  then have s: "snd (grep E req resp self) = snd (is_properly_configured E self)"
    by (auto split: prod.splits sum.splits)
  show ?thesis
    unfolding s using g s by (simp add: ipc_trace ipc_frame)
qed

lemma grep_method_status_gate_example:
  "get_method post_request \<notin> set METHODS
   \<and> grep (stub_daemon (Inr ''PONG'') (Inr ''ClamAV 0.97.8'') (Inr eicar_found)) post_request
        test_response clamav_init =
      (Inr (),
       \<lparr>already_analyzed = [], properly_configured = Some True,
        clamd_socket = ''/var/run/clamav/clamd.ctl'',
        trace =
          [Ping ''/var/run/clamav/clamd.ctl'', Version ''/var/run/clamav/clamd.ctl'',
           OutInformation ''Using ClamAV 0.97.8 for scanning HTTP response bodies.'']\<rparr>)
   \<and> filter is_filter_op (trace (snd (grep (stub_daemon (Inr ''PONG'') (Inr ''ClamAV 0.97.8'')
        (Inr eicar_found)) post_request test_response clamav_init))) = []
   \<and> filter is_dispatch (trace (snd (grep (stub_daemon (Inr ''PONG'') (Inr ''ClamAV 0.97.8'')
        (Inr eicar_found)) post_request test_response clamav_init))) = []
   \<and> get_code missing_response \<notin> set HTTP_CODES
   \<and> already_analyzed (snd (grep (stub_daemon (Inr ''PONG'') (Inr ''ClamAV 0.97.8'')
        (Inr eicar_found)) get_request missing_response clamav_init)) = []
   \<and> filter is_dispatch (trace (snd (grep (stub_daemon (Inr ''PONG'') (Inr ''ClamAV 0.97.8'')
        (Inr eicar_found)) get_request missing_response clamav_init))) = []"
proof -
  let ?E = "stub_daemon (Inr ''PONG'') (Inr ''ClamAV 0.97.8'') (Inr eicar_found)"
  have h: "get_method post_request \<notin> set METHODS"
    by (simp add: fixture_defs METHODS_def)
  have h': "get_code missing_response \<notin> set HTTP_CODES"
    by (simp add: fixture_defs HTTP_CODES_def)
  have p: "is_properly_configured ?E clamav_init =
      (Inr True,
       \<lparr>already_analyzed = [], properly_configured = Some True,
        clamd_socket = ''/var/run/clamav/clamd.ctl'',
        trace =
          [Ping ''/var/run/clamav/clamd.ctl'', Version ''/var/run/clamav/clamd.ctl'',
           OutInformation ''Using ClamAV 0.97.8 for scanning HTTP response bodies.'']\<rparr>)"
    by (simp add: plugin_defs fixture_defs)
  have i: "already_analyzed clamav_init = []" "trace clamav_init = []"
    by (simp_all add: clamav_init_def)
  from grep_method_status_gate [of post_request resp ?E clamav_init for resp, OF disjI1, OF h, of test_response]
    grep_method_status_gate [of req missing_response ?E clamav_init for req, OF disjI2, OF h', of get_request]
    h h' show ?thesis
    by (simp add: p i)
qed

text \<open>
  Claim C5: two invocations of the coordinator with the same request and response, of
  URL \<open>r\<close>, cause at most one scan dispatch; exactly one when the filter has no false
  positives.

  At most one holds from any state, with any daemon and whether the calls return or
  raise. Exactly one is for an exchange that reaches the filter with \<open>r\<close> not yet added:
  the probe answers True, the method and the status are allowed.
\<close>

theorem grep_twice_dispatches_once:
  "dispatches (trace (snd (grep E req resp (snd (grep E req resp self)))))
     \<le> Suc (dispatches (trace self))
   \<and> (fst (is_properly_configured E self) = Inr True
        \<and> get_method req \<in> set METHODS \<and> get_code resp \<in> set HTTP_CODES
        \<and> get_url resp \<notin> set (already_analyzed self)
        \<and> (\<forall>ms x. \<not> false_positive E ms x)
      \<longrightarrow> dispatches (trace (snd (grep E req resp (snd (grep E req resp self)))))
            = Suc (dispatches (trace self)))"
proof -
  let ?s1 = "snd (grep E req resp self)"
  let ?s2 = "snd (grep E req resp ?s1)"
  have first: "dispatches (trace ?s1) \<le> Suc (dispatches (trace self))"
    by (rule grep_dispatches_le)
  have most: "dispatches (trace ?s2) \<le> Suc (dispatches (trace self))"
  proof (cases "dispatches (trace ?s1) = dispatches (trace self)")
    case True
    with grep_dispatches_le [of E req resp ?s1] show ?thesis by simp
  next
    case False
    then have "get_url resp \<in> set (already_analyzed ?s1)" by (rule grep_dispatch_marks)
    then have "dispatches (trace ?s2) = dispatches (trace ?s1)" by (rule grep_seen_no_dispatch)
    with first show ?thesis by simp
  qed
  have exact: "dispatches (trace ?s2) = Suc (dispatches (trace self))"
    if en: "fst (is_properly_configured E self) = Inr True"
      and m: "get_method req \<in> set METHODS" and c: "get_code resp \<in> set HTTP_CODES"
      and fresh: "get_url resp \<notin> set (already_analyzed self)"
      and nofp: "\<forall>ms x. \<not> false_positive E ms x"
  proof -
    have one: "dispatches (trace ?s1) = Suc (dispatches (trace self))"
    proof (cases rule: grep_cases [of E self req resp])
      case (scanned s1)
      then show ?thesis
        using ipc_dispatches [of E self "Inr True" s1]
        by (simp add: scan_dispatches marked_simps) (simp add: dispatches_def)
    next
      case (seen s1)
      with fresh nofp ipc_frameD(1) [of E self "Inr True" s1] show ?thesis
        by (simp add: bloom_contains_def)
    qed (use en m c in auto)
    then have "get_url resp \<in> set (already_analyzed ?s1)"
      by (intro grep_dispatch_marks) simp
    then have "dispatches (trace ?s2) = dispatches (trace ?s1)" by (rule grep_seen_no_dispatch)
    with one show ?thesis by simp
  qed
  from most exact show ?thesis by blast
qed

theorem grep_twice_dispatches_once_witness:
  "fst (is_properly_configured (stub_daemon (Inr ''PONG'') (Inr ''ClamAV 0.97.8'') (Inr eicar_found))
          clamav_init) = Inr True
   \<and> get_method get_request \<in> set METHODS
   \<and> get_code test_response \<in> set HTTP_CODES
   \<and> get_url test_response \<notin> set (already_analyzed clamav_init)
   \<and> (\<forall>ms x. \<not> false_positive (stub_daemon (Inr ''PONG'') (Inr ''ClamAV 0.97.8'') (Inr eicar_found)) ms x)
   \<and> dispatches (trace (snd (grep (stub_daemon (Inr ''PONG'') (Inr ''ClamAV 0.97.8'') (Inr eicar_found))
        get_request test_response
        (snd (grep (stub_daemon (Inr ''PONG'') (Inr ''ClamAV 0.97.8'') (Inr eicar_found))
           get_request test_response clamav_init))))) = 1"
proof -
  let ?E = "stub_daemon (Inr ''PONG'') (Inr ''ClamAV 0.97.8'') (Inr eicar_found)"
  have h1: "fst (is_properly_configured ?E clamav_init) = Inr True"
    by (simp add: plugin_defs fixture_defs)
  have h2: "get_method get_request \<in> set METHODS"
    by (simp add: get_request_def METHODS_def)
  have h3: "get_code test_response \<in> set HTTP_CODES"
    by (simp add: test_response_def HTTP_CODES_def)
  have h4: "get_url test_response \<notin> set (already_analyzed clamav_init)"
    by (simp add: clamav_init_def)
  have h5: "\<forall>ms x. \<not> false_positive ?E ms x"
    by (simp add: stub_daemon_def)
  have z: "dispatches (trace clamav_init) = 0"
    by (simp add: clamav_init_def dispatches_def)
  from grep_twice_dispatches_once [of ?E get_request test_response clamav_init] h1 h2 h3 h4 h5
  have "dispatches (trace (snd (grep ?E get_request test_response
          (snd (grep ?E get_request test_response clamav_init))))) = Suc (dispatches (trace clamav_init))"
    by blast
  with h1 h2 h3 h4 h5 z show ?thesis by simp
qed

text \<open>
  Claim C9: the URL is added to the filter before the dispatch, so once an invocation has
  dispatched a scan for a URL, whether the daemon then raised or answered with a
  malformed response, the URL stays recorded and no later invocation in the same process
  dispatches a scan for it: a failed scan is never retried.

  \<open>cs\<close> is any sequence of later calls of the plugin, \<open>req'\<close> and \<open>resp'\<close> any later
  exchange with the same URL.
\<close>

theorem grep_failed_scan_never_retried:
  assumes "dispatches (trace (snd (grep E req resp self))) \<noteq> dispatches (trace self)"
    and "get_url resp' = get_url resp"
  shows "get_url resp \<in> set (already_analyzed (run E cs (snd (grep E req resp self))))
       \<and> dispatches (trace (snd (grep E req' resp' (run E cs (snd (grep E req resp self))))))
           = dispatches (trace (run E cs (snd (grep E req resp self))))"
proof -
  from assms(1) have "get_url resp \<in> set (already_analyzed (snd (grep E req resp self)))"
    by (rule grep_dispatch_marks)
  with run_analyzed_mono [of "snd (grep E req resp self)" E cs]
  have m: "get_url resp \<in> set (already_analyzed (run E cs (snd (grep E req resp self))))"
    by blast
  with assms(2) have "get_url resp' \<in> set (already_analyzed (run E cs (snd (grep E req resp self))))"
    by simp
  then have "dispatches (trace (snd (grep E req' resp' (run E cs (snd (grep E req resp self))))))
           = dispatches (trace (run E cs (snd (grep E req resp self))))"
    by (rule grep_seen_no_dispatch)
  with m show ?thesis by simp
qed

theorem grep_failed_scan_never_retried_witness:
  "fst (grep (stub_daemon (Inr ''PONG'') (Inr ''ClamAV 0.97.8'') (Inl ConnectionError))
          get_request test_response clamav_init) = Inl ConnectionError
   \<and> dispatches (trace (snd (grep (stub_daemon (Inr ''PONG'') (Inr ''ClamAV 0.97.8'') (Inl ConnectionError))
          get_request test_response clamav_init))) \<noteq> dispatches (trace clamav_init)
   \<and> get_url (test_response\<lparr>response_id := 7\<rparr>) = get_url test_response
   \<and> get_url test_response \<in> set (already_analyzed
         (run (stub_daemon (Inr ''PONG'') (Inr ''ClamAV 0.97.8'') (Inl ConnectionError))
            [SetOptions [(''clamd_socket'', ''/tmp/clamd.sock'')], Grep get_request missing_response]
            (snd (grep (stub_daemon (Inr ''PONG'') (Inr ''ClamAV 0.97.8'') (Inl ConnectionError))
               get_request test_response clamav_init))))
   \<and> dispatches (trace (snd (grep (stub_daemon (Inr ''PONG'') (Inr ''ClamAV 0.97.8'') (Inl ConnectionError))
         get_request (test_response\<lparr>response_id := 7\<rparr>)
         (run (stub_daemon (Inr ''PONG'') (Inr ''ClamAV 0.97.8'') (Inl ConnectionError))
            [SetOptions [(''clamd_socket'', ''/tmp/clamd.sock'')], Grep get_request missing_response]
            (snd (grep (stub_daemon (Inr ''PONG'') (Inr ''ClamAV 0.97.8'') (Inl ConnectionError))
               get_request test_response clamav_init)))))) = 1"
proof -
  let ?E = "stub_daemon (Inr ''PONG'') (Inr ''ClamAV 0.97.8'') (Inl ConnectionError)"
  let ?cs = "[SetOptions [(''clamd_socket'', ''/tmp/clamd.sock'')], Grep get_request missing_response]"
  let ?s1 = "snd (grep ?E get_request test_response clamav_init)"
  have g: "grep ?E get_request test_response clamav_init =
     (Inl ConnectionError,
      \<lparr>already_analyzed = [''http://x/test''], properly_configured = Some True,
       clamd_socket = ''/var/run/clamav/clamd.ctl'',
       trace =
         [Ping ''/var/run/clamav/clamd.ctl'', Version ''/var/run/clamav/clamd.ctl'',
          OutInformation ''Using ClamAV 0.97.8 for scanning HTTP response bodies.'',
          FilterTest ''http://x/test'', FilterAdd ''http://x/test'',
          Instream ''/var/run/clamav/clamd.ctl'' [0x58, 0x35, 0x4F]]\<rparr>)"
    by (simp add: plugin_defs fixture_defs)
  have h1: "dispatches (trace ?s1) \<noteq> dispatches (trace clamav_init)"
    by (simp add: g) (simp add: dispatches_def clamav_init_def)
  have h2: "get_url (test_response\<lparr>response_id := 7\<rparr>) = get_url test_response"
    by simp
  have r: "dispatches (trace (run ?E ?cs ?s1)) = 1"
    by (simp add: g) (simp add: plugin_defs set_options_def fixture_defs dispatches_def)
  from grep_failed_scan_never_retried [OF h1 h2, of ?cs get_request] h1 h2 g r
  show ?thesis by simp
qed

text \<open>
  Claim C8: for every successfully parsed verdict, found false makes no call to the
  findings sink; found true makes exactly one, appending under the category \<open>malware\<close> a
  finding whose URL is the scanned response's URL and whose description contains the
  resource URL and the matched signature name.

  Stated on \<open>_scan_http_response\<close>, which \<open>grep\<close> ends with: the daemon has answered the
  scan with \<open>d\<close>, and the parser has the verdict \<open>r\<close> of it. The signature name is as
  \<open>%s\<close> interpolates it (\<open>py_str\<close>: a string as it is).
\<close>

theorem scan_http_response_reporting_gate:
  assumes "instream E (trace self) (clamd_socket self) (get_body resp) = Inr d"
    and "fst (parse_scan_result E d self) = Some r"
  shows "if found r
         then (\<exists>i. scan_http_response E req resp self =
                 (Inr (), self\<lparr>trace := trace self @
                    [Instream (clamd_socket self) (get_body resp), KbAppend ''malware'' i]\<rparr>)
               \<and> info_url i = Some (get_url resp)
               \<and> contains_str (get_url resp) (info_desc i)
               \<and> contains_str (py_str E (signature r)) (info_desc i))
         else scan_http_response E req resp self =
                 (Inr (), self\<lparr>trace := trace self @
                    [Instream (clamd_socket self) (get_body resp)]\<rparr>)"
proof -
  from assms(2) have p: "parse_try d = Inr r" by (simp add: parse_scan_result_fst)
  show ?thesis
  proof (cases "found r")
    case True
    let ?i = "set_url (get_url resp)
      (Info ''Malware identified'' (malware_desc E (get_url resp) (signature r))
         (response_id resp) (get_name E))"
    have "scan_http_response E req resp self =
            (Inr (), self\<lparr>trace := trace self @
               [Instream (clamd_socket self) (get_body resp), KbAppend ''malware'' ?i]\<rparr>)"
      using assms(1) p True
      by (simp add: scan_http_response_def parse_scan_result_def get_connection_def emit_def
          malware_desc_def Let_def)
    moreover have "info_url ?i = Some (get_url resp)" by (simp add: set_url_def Info_def)
    moreover have "info_desc ?i = malware_desc E (get_url resp) (signature r)"
      by (simp add: set_url_def Info_def)
    ultimately show ?thesis
      using malware_desc_mentions
      by (simp only: True if_True) (rule exI [of _ ?i], simp)
  next
    case False
    then show ?thesis
      using assms(1) p
      by (simp add: scan_http_response_def parse_scan_result_def get_connection_def emit_def Let_def)
  qed
qed

theorem scan_http_response_reporting_gate_witness:
  "instream (stub_daemon (Inr ''PONG'') (Inr ''ClamAV 0.97.8'') (Inr eicar_found))
     (trace clamav_init) (clamd_socket clamav_init) (get_body test_response) = Inr eicar_found
   \<and> fst (parse_scan_result (stub_daemon (Inr ''PONG'') (Inr ''ClamAV 0.97.8'') (Inr eicar_found))
        eicar_found clamav_init) = Some \<lparr>found = True, signature = PStr ''Eicar-Test-Signature''\<rparr>
   \<and> (\<exists>i. scan_http_response (stub_daemon (Inr ''PONG'') (Inr ''ClamAV 0.97.8'') (Inr eicar_found))
             get_request test_response clamav_init =
            (Inr (), clamav_init\<lparr>trace :=
               [Instream ''/var/run/clamav/clamd.ctl'' [0x58, 0x35, 0x4F], KbAppend ''malware'' i]\<rparr>)
          \<and> info_url i = Some ''http://x/test''
          \<and> contains_str ''http://x/test'' (info_desc i)
          \<and> contains_str ''Eicar-Test-Signature'' (info_desc i))
   \<and> instream (stub_daemon (Inr ''PONG'') (Inr ''ClamAV 0.97.8'') (Inr stream_ok))
     (trace clamav_init) (clamd_socket clamav_init) (get_body test_response) = Inr stream_ok
   \<and> fst (parse_scan_result (stub_daemon (Inr ''PONG'') (Inr ''ClamAV 0.97.8'') (Inr stream_ok))
        stream_ok clamav_init) = Some \<lparr>found = False, signature = PNone\<rparr>
   \<and> scan_http_response (stub_daemon (Inr ''PONG'') (Inr ''ClamAV 0.97.8'') (Inr stream_ok))
        get_request test_response clamav_init =
      (Inr (), clamav_init\<lparr>trace := [Instream ''/var/run/clamav/clamd.ctl'' [0x58, 0x35, 0x4F]]\<rparr>)"
proof -
  let ?E = "stub_daemon (Inr ''PONG'') (Inr ''ClamAV 0.97.8'') (Inr eicar_found)"
  let ?F = "stub_daemon (Inr ''PONG'') (Inr ''ClamAV 0.97.8'') (Inr stream_ok)"
  have a1: "instream ?E (trace clamav_init) (clamd_socket clamav_init) (get_body test_response)
      = Inr eicar_found"
    by (simp add: stub_daemon_def)
  have a2: "fst (parse_scan_result ?E eicar_found clamav_init)
      = Some \<lparr>found = True, signature = PStr ''Eicar-Test-Signature''\<rparr>"
    by (simp add: parse_scan_result_def parse_try_def dict_getitem_def py_getitem_def eicar_found_def)
  have b1: "instream ?F (trace clamav_init) (clamd_socket clamav_init) (get_body test_response)
      = Inr stream_ok"
    by (simp add: stub_daemon_def)
  have b2: "fst (parse_scan_result ?F stream_ok clamav_init)
      = Some \<lparr>found = False, signature = PNone\<rparr>"
    by (simp add: parse_scan_result_def parse_try_def dict_getitem_def py_getitem_def stream_ok_def)
  have v: "trace clamav_init = []" "clamd_socket clamav_init = ''/var/run/clamav/clamd.ctl''"
    "get_body test_response = [0x58, 0x35, 0x4F]" "get_url test_response = ''http://x/test''"
    by (simp_all add: clamav_init_def test_response_def)
  from scan_http_response_reporting_gate [OF a1 a2, of get_request]
    scan_http_response_reporting_gate [OF b1 b2, of get_request] a1 a2 b1 b2
  show ?thesis
    by (simp add: v py_str_def)
qed

text \<open>
  Claim C1: a daemon response without the expected shape does not raise out of the
  coordinator; the failure is logged, the scan counts as no verdict, no finding is
  appended.

  The code logs the failure and appends no finding, but it does raise: the parser
  returns \<open>None\<close> from its handler, and \<open>_scan_http_response\<close> reads \<open>result.found\<close> of it.
  On the initial plugin, a GET request and a 200 response, with a daemon that answers the
  scan with the empty dict \<open>{}\<close>, \<open>grep\<close> ends in \<open>AttributeError\<close>.
\<close>

theorem grep_malformed_response_raises:
  "grep (stub_daemon (Inr ''PONG'') (Inr ''ClamAV 0.97.8'') (Inr [])) get_request test_response
     clamav_init =
   (Inl AttributeError,
    \<lparr>already_analyzed = [''http://x/test''], properly_configured = Some True,
     clamd_socket = ''/var/run/clamav/clamd.ctl'',
     trace =
       [Ping ''/var/run/clamav/clamd.ctl'', Version ''/var/run/clamav/clamd.ctl'',
        OutInformation ''Using ClamAV 0.97.8 for scanning HTTP response bodies.'',
        FilterTest ''http://x/test'', FilterAdd ''http://x/test'',
        Instream ''/var/run/clamav/clamd.ctl'' [0x58, 0x35, 0x4F],
        OutDebug ''Invalid response from clamd: {}'']\<rparr>)"
  by (simp add: plugin_defs fixture_defs)

text \<open>The same on every response the parser rejects: the debug line, then the exception.\<close>

lemma scan_http_response_malformed:
  assumes "instream E (trace self) (clamd_socket self) (get_body resp) = Inr d"
    and "parse_try d = Inl e"
  shows "scan_http_response E req resp self =
           (Inl AttributeError,
            self\<lparr>trace := trace self @
              [Instream (clamd_socket self) (get_body resp),
               OutDebug (''Invalid response from clamd: '' @ py_str E (PDict d))]\<rparr>)"
  using assms by (simp add: scan_defs Let_def)

text \<open>
  Claim C2: a transport error of the daemon client during the scan dispatch is caught
  inside the coordinator, logged and treated as a skip, and never reaches the caller of
  the entry point.

  The code has a handler around the ping of \<open>_connection_test\<close> and none around
  \<open>instream\<close>: with a daemon whose scan raises \<open>ConnectionError\<close>, \<open>grep\<close> ends in that
  exception, and nothing is logged after the dispatch.
\<close>

theorem grep_transport_error_raises:
  "grep (stub_daemon (Inr ''PONG'') (Inr ''ClamAV 0.97.8'') (Inl ConnectionError)) get_request
     test_response clamav_init =
   (Inl ConnectionError,
    \<lparr>already_analyzed = [''http://x/test''], properly_configured = Some True,
     clamd_socket = ''/var/run/clamav/clamd.ctl'',
     trace =
       [Ping ''/var/run/clamav/clamd.ctl'', Version ''/var/run/clamav/clamd.ctl'',
        OutInformation ''Using ClamAV 0.97.8 for scanning HTTP response bodies.'',
        FilterTest ''http://x/test'', FilterAdd ''http://x/test'',
        Instream ''/var/run/clamav/clamd.ctl'' [0x58, 0x35, 0x4F]]\<rparr>)"
  by (simp add: plugin_defs fixture_defs)

text \<open>The same for every exception of the scan: it leaves the method as it came.\<close>

lemma scan_http_response_transport_error:
  assumes "instream E (trace self) (clamd_socket self) (get_body resp) = Inl e"
  shows "scan_http_response E req resp self =
           (Inl e, self\<lparr>trace := trace self @ [Instream (clamd_socket self) (get_body resp)]\<rparr>)"
  using assms by (simp add: scan_defs Let_def)

end
